theory Spec2Isabelle
  imports Main "HOL-Library.Sublist"
begin

section \<open>The workspace server of packages/workspace (default-workspace-server.ts)\<close>

text \<open>
  The file holds two classes. \<^verbatim>\<open>WorkspaceCliContribution\<close> captures the workspace
  path given on the command line; \<^verbatim>\<open>DefaultWorkspaceServer\<close> resolves the workspace
  root once (from the command line, else from the file
  \<^verbatim>\<open>~/.theia/recentworkspace.json\<close>) and rewrites that file on \<^verbatim>\<open>setRoot\<close>.

  The embedding is shallow: every method is a HOL function over an explicit state (the
  \<^verbatim>\<open>root\<close> Deferred, the file system, the calls made to the logger and the message
  service). A thrown exception or rejected promise is the \<open>Inl\<close> of a sum. The write
  that \<^verbatim>\<open>setRoot\<close> starts and does not await is a call in flight, resumed one
  file-system operation at a time in any order with the other calls in flight. The
  functions of Node, fs-extra, yargs and \<^verbatim>\<open>@theia/core\<close> that the file calls are not
  part of it; those whose result depends on the platform are fields of a record
  \<open>host\<close>, and every theorem holds for every host.
\<close>

subsection \<open>JavaScript values\<close>

text \<open>
  The values \<^verbatim>\<open>JSON.parse\<close> can return. A value of TypeScript type \<^verbatim>\<open>any\<close>, or
  \<^verbatim>\<open>T | undefined\<close>, is a \<open>json option\<close> with \<open>None\<close> for \<^verbatim>\<open>undefined\<close>. An object
  is the list of its own properties (\<^verbatim>\<open>JSON.parse\<close> keeps one value per key), looked up
  with \<open>map_of\<close>. Numbers are the integer-valued ones; a number is only ever tested
  for being zero here.
\<close>

datatype json =
    JNull
  | JBool bool
  | JNum int
  | JStr string
  | JArr "json list"
  | JObj "(string \<times> json) list"

type_synonym jsval = "json option"

datatype fault = TypeError | SyntaxError | ENOENT | EISDIR | ENOTDIR | EEXIST

text \<open>Truthiness, and the operator \<^verbatim>\<open>!\<close>.\<close>

fun truthy :: "json \<Rightarrow> bool" where
  "truthy JNull = False"
| "truthy (JBool b) = b"
| "truthy (JNum n) = (n \<noteq> 0)"
| "truthy (JStr s) = (s \<noteq> [])"
| "truthy (JArr xs) = True"
| "truthy (JObj kvs) = True"

definition js_not :: "jsval \<Rightarrow> bool" where
  "js_not v = (case v of None \<Rightarrow> True | Some j \<Rightarrow> \<not> truthy j)"

text \<open>
  The member access \<^verbatim>\<open>v.recentRoots\<close>: a TypeError on \<^verbatim>\<open>undefined\<close> and \<^verbatim>\<open>null\<close>,
  the own property of an object, \<^verbatim>\<open>undefined\<close> on every other value (booleans,
  numbers, strings and arrays have no property of that name).
\<close>

fun get_recentRoots :: "jsval \<Rightarrow> fault + jsval" where
  "get_recentRoots None = Inl TypeError"
| "get_recentRoots (Some JNull) = Inl TypeError"
| "get_recentRoots (Some (JObj kvs)) = Inr (map_of kvs ''recentRoots'')"
| "get_recentRoots (Some (JBool b)) = Inr None"
| "get_recentRoots (Some (JNum n)) = Inr None"
| "get_recentRoots (Some (JStr s)) = Inr None"
| "get_recentRoots (Some (JArr xs)) = Inr None"

text \<open>
  The element access \<^verbatim>\<open>v[0]\<close>: the first element of an array and \<^verbatim>\<open>undefined\<close> when
  it is empty, the first character of a string, the property \<^verbatim>\<open>"0"\<close> of an object.
\<close>

fun index0 :: "jsval \<Rightarrow> fault + jsval" where
  "index0 None = Inl TypeError"
| "index0 (Some JNull) = Inl TypeError"
| "index0 (Some (JArr xs)) = Inr (case xs of [] \<Rightarrow> None | x # _ \<Rightarrow> Some x)"
| "index0 (Some (JStr s)) = Inr (case s of [] \<Rightarrow> None | c # _ \<Rightarrow> Some (JStr [c]))"
| "index0 (Some (JObj kvs)) = Inr (map_of kvs ''0'')"
| "index0 (Some (JBool b)) = Inr None"
| "index0 (Some (JNum n)) = Inr None"

subsection \<open>Deferred values\<close>

text \<open>
  \<^verbatim>\<open>Deferred<T>\<close> of promise-util: a promise with its \<^verbatim>\<open>resolve\<close>. Resolving a
  promise that is already settled changes nothing.
\<close>

datatype 'a deferred = Pending | Resolved 'a

fun resolve :: "'a deferred \<Rightarrow> 'a \<Rightarrow> 'a deferred" where
  "resolve Pending v = Resolved v"
| "resolve (Resolved w) v = Resolved w"

subsection \<open>The host\<close>

text \<open>
  A path of the file system is the list of its components below the root directory.
  \<open>os_homedir\<close> is \<^verbatim>\<open>os.homedir()\<close> as such a path. \<open>FileUri_create p\<close> is
  \<^verbatim>\<open>FileUri.create(p).toString()\<close>. \<open>JSON_parse\<close> returns \<open>Inl\<close> where
  \<^verbatim>\<open>JSON.parse\<close> throws. \<open>writeJson_text v\<close> is the text \<^verbatim>\<open>fs.writeJson\<close> writes for
  the value \<open>v\<close>.
\<close>

type_synonym fpath = "string list"

record host =
  path_isAbsolute :: "string \<Rightarrow> bool"
  path_join :: "string \<Rightarrow> string \<Rightarrow> string"
  process_cwd :: string
  os_homedir :: fpath
  FileUri_create :: "string \<Rightarrow> string"
  String_trim :: "string \<Rightarrow> string"
  JSON_parse :: "string \<Rightarrow> fault + json"
  writeJson_text :: "json \<Rightarrow> string"

subsection \<open>The file system\<close>

datatype node = Dir | File string

type_synonym filesystem = "fpath \<Rightarrow> node option"

definition is_File :: "node option \<Rightarrow> bool" where
  "is_File n = (case n of Some (File c) \<Rightarrow> True | _ \<Rightarrow> False)"

definition fs_pathExists :: "fpath \<Rightarrow> filesystem \<Rightarrow> bool" where
  "fs_pathExists p fs = (fs p \<noteq> None)"

definition fs_readFile :: "fpath \<Rightarrow> filesystem \<Rightarrow> fault + string" where
  "fs_readFile p fs =
     (case fs p of
        None \<Rightarrow> Inl ENOENT
      | Some Dir \<Rightarrow> Inl EISDIR
      | Some (File c) \<Rightarrow> Inr c)"

text \<open>
  \<^verbatim>\<open>fs.mkdirs(p)\<close>: every missing directory on the way to \<open>p\<close>, and \<open>p\<close> itself, is
  created. It fails, creating nothing, when a regular file is in the way.
\<close>

definition fs_mkdirs :: "fpath \<Rightarrow> filesystem \<Rightarrow> fault + filesystem" where
  "fs_mkdirs p fs =
     (if list_ex (\<lambda>q. is_File (fs q)) (butlast (prefixes p)) then Inl ENOTDIR
      else if is_File (fs p) then Inl EEXIST
      else Inr (\<lambda>q. if prefix q p \<and> fs q = None then Some Dir else fs q))"

text \<open>
  Writing a file replaces its whole content. The directory that holds it must exist,
  and the path must not be a directory.
\<close>

definition fs_writeFile :: "fpath \<Rightarrow> string \<Rightarrow> filesystem \<Rightarrow> fault + filesystem" where
  "fs_writeFile p c fs =
     (if fs p = Some Dir then Inl EISDIR
      else (case fs (butlast p) of
              None \<Rightarrow> Inl ENOENT
            | Some (File d) \<Rightarrow> Inl ENOTDIR
            | Some Dir \<Rightarrow> Inr (fs(p \<mapsto> File c))))"

definition fs_writeJson :: "host \<Rightarrow> fpath \<Rightarrow> json \<Rightarrow> filesystem \<Rightarrow> fault + filesystem" where
  "fs_writeJson h p v fs = fs_writeFile p (writeJson_text h v) fs"

text \<open>\<^verbatim>\<open>fs.remove(p)\<close>: the file, or the directory with all it holds, is gone.\<close>

definition fs_remove :: "fpath \<Rightarrow> filesystem \<Rightarrow> filesystem" where
  "fs_remove p fs = (\<lambda>q. if prefix p q then None else fs q)"

subsection \<open>WorkspaceCliContribution\<close>

text \<open>
  \<^verbatim>\<open>yargs.Arguments\<close>: \<open>positional\<close> is \<^verbatim>\<open>args._\<close>, \<open>root_dir\<close> is
  \<^verbatim>\<open>args['root-dir']\<close> (of type \<^verbatim>\<open>any\<close>; \<^verbatim>\<open>undefined\<close> when the option is not given).
  The declared type of \<^verbatim>\<open>args._\<close> is \<^verbatim>\<open>string[]\<close>, but yargs hands an argument that
  reads as a number over as a number, so an element is any value: \<^verbatim>\<open>123\<close> on the
  command line is \<open>JNum 123\<close>, not \<open>JStr ''123''\<close>.
\<close>

record arguments =
  positional :: "json list"
  root_dir :: jsval

text \<open>\<^verbatim>\<open>xs[i]\<close> on an array: \<^verbatim>\<open>undefined\<close> out of range.\<close>

definition at_index :: "json list \<Rightarrow> nat \<Rightarrow> jsval" where
  "at_index xs i = (if i < length xs then Some (xs ! i) else None)"

text \<open>
  The part of \<^verbatim>\<open>setArguments\<close> from \<^verbatim>\<open>path.isAbsolute\<close> on. \<^verbatim>\<open>path.isAbsolute\<close>
  throws a TypeError when its argument is not a string.
\<close>

definition absolute_path :: "host \<Rightarrow> jsval \<Rightarrow> fault + string option" where
  "absolute_path h wsPath =
     (case wsPath of
        Some (JStr p) \<Rightarrow>
          Inr (Some (if \<not> path_isAbsolute h p then path_join h (process_cwd h) p else p))
      | _ \<Rightarrow> Inl TypeError)"

text \<open>
  \<^verbatim>\<open>setArguments\<close>. \<open>Inr v\<close>: the Deferred \<^verbatim>\<open>workspaceRoot\<close> is resolved with \<open>v\<close>
  (\<open>None\<close> is \<^verbatim>\<open>undefined\<close>). \<open>Inl e\<close>: \<open>e\<close> is thrown and \<^verbatim>\<open>workspaceRoot\<close> is
  left pending.
\<close>

definition setArguments :: "host \<Rightarrow> arguments \<Rightarrow> fault + string option" where
  "setArguments h args =
     (let wsPath = at_index (positional args) 2 in
      if js_not wsPath then
        (let wsPath = root_dir args in
         if js_not wsPath then Inr None
         else absolute_path h wsPath)
      else absolute_path h wsPath)"

subsection \<open>DefaultWorkspaceServer\<close>

text \<open>What the logger and the message service were asked to do, in order.\<close>

datatype event =
    Logger_warn fpath
  | Message_warn fpath "string list"
  | Message_info string

record state =
  root :: "jsval deferred"
  fsys :: filesystem
  events :: "event list"

definition initial_state :: "filesystem \<Rightarrow> state" where
  "initial_state fs = \<lparr>root = Pending, fsys = fs, events = []\<rparr>"

definition getUserStoragePath :: "host \<Rightarrow> fpath" where
  "getUserStoragePath h = os_homedir h @ [''.theia'', ''recentworkspace.json'']"

definition getRoot :: "state \<Rightarrow> jsval deferred" where
  "getRoot s = root s"

definition getRootURIFromCli :: "host \<Rightarrow> string option \<Rightarrow> jsval" where
  "getRootURIFromCli h arg =
     (case arg of Some a \<Rightarrow> Some (JStr (FileUri_create h a)) | None \<Rightarrow> None)"

text \<open>\<^verbatim>\<open>WorkspaceData.is\<close>: \<^verbatim>\<open>data.recentRoots !== undefined\<close>.\<close>

definition WorkspaceData_is :: "jsval \<Rightarrow> fault + bool" where
  "WorkspaceData_is data =
     (case get_recentRoots data of
        Inl e \<Rightarrow> Inl e
      | Inr r \<Rightarrow> Inr (r \<noteq> None))"

text \<open>
  The \<^verbatim>\<open>catch\<close> block of \<^verbatim>\<open>readFromUserHome\<close>: a warning is logged, the user is
  asked to fix or delete the file, and \<open>selected\<close> is what the prompt resolves to
  (\<open>None\<close> when it is dismissed or never answered).
\<close>

definition parse_error_prompt :: "fpath \<Rightarrow> string option \<Rightarrow> state \<Rightarrow> state" where
  "parse_error_prompt file selected s =
     (let s1 = s\<lparr>events := events s @ [Logger_warn file, Message_warn file [''Fix'', ''Delete'']]\<rparr> in
      if selected = Some ''Fix'' then
        s1\<lparr>events := events s1 @ [Message_info ''Once fixed, you should reload the application.'']\<rparr>
      else if selected = Some ''Delete'' then
        s1\<lparr>fsys := fs_remove file (fsys s1)\<rparr>
      else s1)"

definition readFromUserHome :: "host \<Rightarrow> string option \<Rightarrow> state \<Rightarrow> fault + (jsval \<times> state)" where
  "readFromUserHome h selected s =
     (let file = getUserStoragePath h in
      if fs_pathExists file (fsys s) then
        (case fs_readFile file (fsys s) of
           Inl e \<Rightarrow> Inl e
         | Inr rawContent \<Rightarrow>
             (let content = String_trim h rawContent in
              if content = [] then Inr (None, s)
              else
                (case JSON_parse h content of
                   Inl error \<Rightarrow> Inr (None, parse_error_prompt file selected s)
                 | Inr config \<Rightarrow>
                     (case WorkspaceData_is (Some config) of
                        Inl e \<Rightarrow> Inl e
                      | Inr b \<Rightarrow> if b then Inr (Some config, s) else Inr (None, s)))))
      else Inr (None, s))"

text \<open>
  The assignment \<^verbatim>\<open>root = data.recentRoots[0]\<close> under the guard
  \<^verbatim>\<open>data && data.recentRoots\<close>; \<open>root0\<close> is the value \<^verbatim>\<open>root\<close> keeps when the guard
  fails.
\<close>

definition first_recent_root :: "jsval \<Rightarrow> jsval \<Rightarrow> fault + jsval" where
  "first_recent_root root0 data =
     (if js_not data then Inr root0
      else (case get_recentRoots data of
              Inl e \<Rightarrow> Inl e
            | Inr recentRoots \<Rightarrow>
                if js_not recentRoots then Inr root0 else index0 recentRoots))"

text \<open>
  \<^verbatim>\<open>init\<close>, from the point where \<^verbatim>\<open>cliParams.workspaceRoot\<close> is resolved with \<open>arg\<close>.
  \<open>Inl e\<close>: \<open>e\<close> is thrown and \<^verbatim>\<open>this.root\<close> stays as it was.
\<close>

definition init :: "host \<Rightarrow> string option \<Rightarrow> string option \<Rightarrow> state \<Rightarrow> fault + state" where
  "init h arg selected s =
     (let root0 = getRootURIFromCli h arg in
      if js_not root0 then
        (case readFromUserHome h selected s of
           Inl e \<Rightarrow> Inl e
         | Inr (data, s1) \<Rightarrow>
             (case first_recent_root root0 data of
                Inl e \<Rightarrow> Inl e
              | Inr r \<Rightarrow> Inr (s1\<lparr>root := resolve (root s1) r\<rparr>)))
      else Inr (s\<lparr>root := resolve (root s) root0\<rparr>))"

text \<open>
  The start of the process: \<^verbatim>\<open>setArguments\<close>, then \<^verbatim>\<open>init\<close>. When \<^verbatim>\<open>setArguments\<close>
  throws, \<^verbatim>\<open>workspaceRoot\<close> is never resolved and \<^verbatim>\<open>init\<close> never gets past its first
  line; \<open>Inl\<close> stands for every run that leaves \<^verbatim>\<open>this.root\<close> unsettled.
\<close>

definition startup :: "host \<Rightarrow> arguments \<Rightarrow> string option \<Rightarrow> state \<Rightarrow> fault + state" where
  "startup h args selected s =
     (case setArguments h args of
        Inl e \<Rightarrow> Inl e
      | Inr arg \<Rightarrow> init h arg selected s)"

text \<open>
  \<^verbatim>\<open>writeToUserHome\<close> is an \<^verbatim>\<open>async\<close> function with three awaits, and \<^verbatim>\<open>setRoot\<close>
  calls it without awaiting it: the call goes on after \<^verbatim>\<open>setRoot\<close> has returned, one
  file-system operation at a time, and other code, a later \<^verbatim>\<open>setRoot\<close> and its own
  write included, runs in between. A call in flight is the operation it waits for and
  its argument \<^verbatim>\<open>data\<close>; it ends fulfilled, or rejected with the fault of the operation
  that failed (nobody handles the rejection).
\<close>

datatype write_stage = PathExists | Mkdirs | WriteJson | Fulfilled | Rejected fault

type_synonym write_call = "write_stage \<times> json"

text \<open>
  \<open>writeToUserHome h call fs\<close>: the operation the call waits for is done on the file
  system \<open>fs\<close>, and the call goes on to its next await. Each operation is atomic.
\<close>

definition writeToUserHome :: "host \<Rightarrow> write_call \<Rightarrow> filesystem \<Rightarrow> write_call \<times> filesystem" where
  "writeToUserHome h call fs =
     (let file = getUserStoragePath h; data = snd call in
      case fst call of
        PathExists \<Rightarrow>
          if \<not> fs_pathExists file fs then ((Mkdirs, data), fs) else ((WriteJson, data), fs)
      | Mkdirs \<Rightarrow>
          (case fs_mkdirs (butlast file) fs of
             Inl e \<Rightarrow> ((Rejected e, data), fs)
           | Inr fs1 \<Rightarrow> ((WriteJson, data), fs1))
      | WriteJson \<Rightarrow>
          (case fs_writeJson h file data fs of
             Inl e \<Rightarrow> ((Rejected e, data), fs)
           | Inr fs2 \<Rightarrow> ((Fulfilled, data), fs2))
      | Fulfilled \<Rightarrow> (call, fs)
      | Rejected e \<Rightarrow> (call, fs))"

definition settled :: "write_call \<Rightarrow> bool" where
  "settled call =
     (case fst call of
        PathExists \<Rightarrow> False
      | Mkdirs \<Rightarrow> False
      | WriteJson \<Rightarrow> False
      | Fulfilled \<Rightarrow> True
      | Rejected e \<Rightarrow> True)"

definition workspace_data :: "string \<Rightarrow> json" where
  "workspace_data uri = JObj [(''recentRoots'', JArr [JStr uri])]"

text \<open>
  The server while it runs: its state and the calls of \<^verbatim>\<open>writeToUserHome\<close> made so
  far, in the order of the calls.
\<close>

record server =
  current :: state
  writes :: "write_call list"

text \<open>
  \<^verbatim>\<open>setRoot\<close> replaces the Deferred by one resolved with \<open>uri\<close>, calls
  \<^verbatim>\<open>writeToUserHome\<close>, which runs up to its first await (\<^verbatim>\<open>fs.pathExists\<close>), and
  returns. It never fails, and the file system is as it was when it returns.
\<close>

definition setRoot :: "string \<Rightarrow> server \<Rightarrow> server" where
  "setRoot uri sv =
     sv\<lparr>current := (current sv)\<lparr>root := resolve Pending (Some (JStr uri))\<rparr>,
        writes := writes sv @ [(PathExists, workspace_data uri)]\<rparr>"

text \<open>
  The event loop resumes the \<open>i\<close>-th call of \<^verbatim>\<open>writeToUserHome\<close> at the await it waits
  at; a schedule is the list of the calls resumed, in order. Nothing orders the calls
  in flight: every schedule is a possible run.
\<close>

definition resume :: "host \<Rightarrow> nat \<Rightarrow> server \<Rightarrow> server" where
  "resume h i sv =
     (if i < length (writes sv) then
        (case writeToUserHome h (writes sv ! i) (fsys (current sv)) of
           (call, fs) \<Rightarrow>
             sv\<lparr>current := (current sv)\<lparr>fsys := fs\<rparr>, writes := (writes sv)[i := call]\<rparr>)
      else sv)"

fun run :: "host \<Rightarrow> nat list \<Rightarrow> server \<Rightarrow> server" where
  "run h [] sv = sv"
| "run h (i # schedule) sv = run h schedule (resume h i sv)"

text \<open>
  What \<^verbatim>\<open>getRoot()\<close> gives after a run: the promise of \<^verbatim>\<open>this.root\<close>, which is
  pending for ever after a run that threw.
\<close>

definition root_after :: "fault + state \<Rightarrow> jsval deferred" where
  "root_after r = (case r of Inl e \<Rightarrow> Pending | Inr s \<Rightarrow> getRoot s)"

subsection \<open>A POSIX host, to run the server on concrete inputs\<close>

text \<open>
  On POSIX a path is absolute when it starts with a slash, and \<^verbatim>\<open>path.join\<close> of a
  normalised directory and a normalised relative path puts a slash between them. A file
  URI is the scheme \<^verbatim>\<open>file://\<close> before the path (no character of the paths used below
  needs percent-encoding).
\<close>

definition posix_isAbsolute :: "string \<Rightarrow> bool" where
  "posix_isAbsolute p = (case p of [] \<Rightarrow> False | c # _ \<Rightarrow> c = CHR ''/'')"

definition posix_join :: "string \<Rightarrow> string \<Rightarrow> string" where
  "posix_join d p = d @ ''/'' @ p"

definition file_uri :: "string \<Rightarrow> string" where
  "file_uri p = ''file://'' @ p"

definition is_space :: "char \<Rightarrow> bool" where
  "is_space c = (c = CHR '' '' \<or> c = CHR 0x09 \<or> c = CHR 0x0A \<or> c = CHR 0x0B
     \<or> c = CHR 0x0C \<or> c = CHR 0x0D)"

definition ascii_trim :: "string \<Rightarrow> string" where
  "ascii_trim s = rev (dropWhile is_space (rev (dropWhile is_space s)))"

text \<open>The compact JSON text of a value, as \<^verbatim>\<open>JSON.stringify\<close> prints it.\<close>

fun digits :: "nat \<Rightarrow> string" where
  "digits n =
     (if n < 10 then [''0123456789'' ! n]
      else digits (n div 10) @ [''0123456789'' ! (n mod 10)])"

declare digits.simps [simp del]

definition escape :: "char \<Rightarrow> string" where
  "escape c =
     (if c = CHR 0x22 then [CHR 0x5C, CHR 0x22]
      else if c = CHR 0x5C then [CHR 0x5C, CHR 0x5C]
      else [c])"

definition quoted :: "string \<Rightarrow> string" where
  "quoted s = CHR 0x22 # concat (map escape s) @ [CHR 0x22]"

fun commas :: "string list \<Rightarrow> string" where
  "commas [] = []"
| "commas [x] = x"
| "commas (x # y # ys) = x @ '','' @ commas (y # ys)"

fun stringify :: "json \<Rightarrow> string" where
  "stringify JNull = ''null''"
| "stringify (JBool b) = (if b then ''true'' else ''false'')"
| "stringify (JNum i) = (if i < 0 then ''-'' @ digits (nat (- i)) else digits (nat i))"
| "stringify (JStr s) = quoted s"
| "stringify (JArr xs) = ''['' @ commas (map stringify xs) @ '']''"
| "stringify (JObj kvs) =
     ''{'' @ commas (map (\<lambda>(k, v). quoted k @ '':'' @ stringify v) kvs) @ ''}''"

text \<open>
  \<^verbatim>\<open>JSON.parse\<close> on the texts of a few values; the sample host is only ever run on
  these texts and on one text that is not JSON at all.
\<close>

definition two_roots :: json where
  "two_roots = JObj [(''recentRoots'', JArr [JStr ''/ws/a'', JStr ''/ws/b''])]"

definition empty_roots :: json where
  "empty_roots = JObj [(''recentRoots'', JArr [])]"

definition sample_values :: "json list" where
  "sample_values =
     [JNull, JObj [], empty_roots, two_roots,
      JObj [(''recentRoots'', JArr [JStr ''file:///ws/a''])]]"

definition table_parse :: "string \<Rightarrow> fault + json" where
  "table_parse s =
     (case find (\<lambda>v. stringify v = s) sample_values of
        None \<Rightarrow> Inl SyntaxError
      | Some v \<Rightarrow> Inr v)"

definition posix_host :: host where
  "posix_host =
     \<lparr>path_isAbsolute = posix_isAbsolute,
      path_join = posix_join,
      process_cwd = ''/home/user'',
      os_homedir = [''home'', ''user''],
      FileUri_create = file_uri,
      String_trim = ascii_trim,
      JSON_parse = table_parse,
      writeJson_text = (\<lambda>v. stringify v @ [CHR 0x0A])\<rparr>"

text \<open>
  File systems: the home directory alone, the root directory alone, the home
  directory with the storage file holding \<open>c\<close>, and one where \<^verbatim>\<open>/home\<close> is a regular
  file.
\<close>

definition home_only :: filesystem where
  "home_only =
     (\<lambda>p. if p = [] \<or> p = [''home''] \<or> p = [''home'', ''user''] then Some Dir
          else None)"

definition root_only :: filesystem where
  "root_only = (\<lambda>p. if p = [] then Some Dir else None)"

definition with_storage_file :: "string \<Rightarrow> filesystem" where
  "with_storage_file c =
     home_only([''home'', ''user'', ''.theia''] \<mapsto> Dir,
               [''home'', ''user'', ''.theia'', ''recentworkspace.json''] \<mapsto> File c)"

definition home_is_file :: filesystem where
  "home_is_file = root_only([''home''] \<mapsto> File [])"

text \<open>The server with no write in flight.\<close>

definition idle :: "filesystem \<Rightarrow> server" where
  "idle fs = \<lparr>current = initial_state fs, writes = []\<rparr>"

definition cli_none :: arguments where
  "cli_none = \<lparr>positional = [JStr ''node'', JStr ''main.js''], root_dir = None\<rparr>"

definition cli_positional :: "json \<Rightarrow> arguments" where
  "cli_positional v = \<lparr>positional = [JStr ''node'', JStr ''main.js'', v], root_dir = None\<rparr>"

definition cli_root_dir :: "string \<Rightarrow> arguments" where
  "cli_root_dir p =
     \<lparr>positional = [JStr ''node'', JStr ''main.js''], root_dir = Some (JStr p)\<rparr>"

section \<open>Properties\<close>

subsection \<open>The command line\<close>

lemma js_not_at_index:
  "js_not (at_index xs i) = (length xs \<le> i \<or> \<not> truthy (xs ! i))"
  by (auto simp: js_not_def at_index_def)

lemma setArguments_positional:
  assumes "2 < length (positional args)" and "truthy (positional args ! 2)"
  shows "setArguments h args = absolute_path h (Some (positional args ! 2))"
  using assms by (simp add: setArguments_def js_not_at_index) (simp add: at_index_def)

lemma setArguments_fallback:
  assumes "length (positional args) \<le> 2 \<or> \<not> truthy (positional args ! 2)"
  shows "setArguments h args =
           (if js_not (root_dir args) then Inr None else absolute_path h (root_dir args))"
  using assms by (auto simp: setArguments_def js_not_at_index Let_def)

lemma absolute_path_string:
  "absolute_path h (Some (JStr p)) =
     Inr (Some (if path_isAbsolute h p then p else path_join h (process_cwd h) p))"
  by (simp add: absolute_path_def)

lemma init_from_cli:
  assumes "FileUri_create h a \<noteq> []"
  shows "init h (Some a) selected s =
           Inr (s\<lparr>root := resolve (root s) (Some (JStr (FileUri_create h a)))\<rparr>)"
  using assms by (simp add: init_def getRootURIFromCli_def js_not_def)

lemma startup_from_cli:
  assumes "setArguments h args = Inr (Some a)" and "FileUri_create h a \<noteq> []"
  shows "startup h args selected (initial_state fs) =
           Inr ((initial_state fs)\<lparr>root := Resolved (Some (JStr (FileUri_create h a)))\<rparr>)"
  using assms by (simp add: startup_def init_from_cli) (simp add: initial_state_def)

text \<open>
  C1. An absolute path \<open>P\<close> given as the positional argument (\<^verbatim>\<open>args._[2]\<close>) decides
  the root: \<^verbatim>\<open>getRoot()\<close> resolves to \<^verbatim>\<open>FileUri.create(P).toString()\<close> whatever the
  file system holds and whatever the user would answer to a prompt, and the run
  touches neither the file system nor the message service. A positional argument is a
  non-empty string, and a file URI is never the empty string; the code tests both for
  truthiness.
\<close>

theorem C1_cli_path_takes_precedence:
  assumes "2 < length (positional args)" and "positional args ! 2 = JStr P"
    and "P \<noteq> []" and "path_isAbsolute h P" and "FileUri_create h P \<noteq> []"
  shows "root_after (startup h args selected (initial_state fs)) =
           Resolved (Some (JStr (FileUri_create h P)))
         \<and> startup h args selected (initial_state fs) =
           Inr \<lparr>root = Resolved (Some (JStr (FileUri_create h P))), fsys = fs, events = []\<rparr>"
proof -
  have "setArguments h args = Inr (Some P)"
    using assms by (simp add: setArguments_positional absolute_path_string)
  then have "startup h args selected (initial_state fs) =
      Inr ((initial_state fs)\<lparr>root := Resolved (Some (JStr (FileUri_create h P)))\<rparr>)"
    using assms(5) by (rule startup_from_cli)
  then show ?thesis
    by (simp add: root_after_def getRoot_def initial_state_def)
qed

theorem C1_cli_path_takes_precedence_witness:
  "root_after (startup posix_host (cli_positional (JStr ''/ws/x'')) (Some ''Delete'')
      (initial_state (with_storage_file (stringify two_roots)))) =
     Resolved (Some (JStr ''file:///ws/x''))
   \<and> startup posix_host (cli_positional (JStr ''/ws/x'')) (Some ''Delete'')
      (initial_state (with_storage_file (stringify two_roots))) =
     Inr \<lparr>root = Resolved (Some (JStr ''file:///ws/x'')),
          fsys = with_storage_file (stringify two_roots), events = []\<rparr>"
proof -
  have given: "2 < length (positional (cli_positional (JStr ''/ws/x'')))"
    "positional (cli_positional (JStr ''/ws/x'')) ! 2 = JStr ''/ws/x''"
    by (simp_all add: cli_positional_def)
  have absolute: "path_isAbsolute posix_host ''/ws/x''"
    by (simp add: posix_host_def posix_isAbsolute_def)
  have uri: "FileUri_create posix_host ''/ws/x'' = ''file:///ws/x''"
    by (simp add: posix_host_def file_uri_def)
  have nonempty: "''/ws/x'' \<noteq> []" "FileUri_create posix_host ''/ws/x'' \<noteq> []"
    by (simp_all add: uri)
  show ?thesis
    using C1_cli_path_takes_precedence [OF given nonempty(1) absolute nonempty(2),
        of "Some ''Delete''" "with_storage_file (stringify two_roots)"]
    unfolding uri .
qed

text \<open>
  C6, as the code has it. A relative path \<open>R\<close> that reaches \<^verbatim>\<open>setArguments\<close> as a
  non-empty string, as \<^verbatim>\<open>args._[2]\<close> or as the value of \<^verbatim>\<open>--root-dir\<close> when
  \<^verbatim>\<open>args._[2]\<close> is missing or falsy, is captured as \<^verbatim>\<open>path.join(process.cwd(), R)\<close>,
  and \<^verbatim>\<open>getRoot()\<close> resolves to the file URI of that joined path.
\<close>

theorem C6_relative_string_joined_with_cwd:
  assumes "\<not> path_isAbsolute h R" and "R \<noteq> []"
    and "(2 < length (positional args) \<and> positional args ! 2 = JStr R)
         \<or> ((length (positional args) \<le> 2 \<or> \<not> truthy (positional args ! 2))
             \<and> root_dir args = Some (JStr R))"
    and "FileUri_create h (path_join h (process_cwd h) R) \<noteq> []"
  shows "setArguments h args = Inr (Some (path_join h (process_cwd h) R))
         \<and> root_after (startup h args selected (initial_state fs)) =
           Resolved (Some (JStr (FileUri_create h (path_join h (process_cwd h) R))))"
proof -
  have captured: "setArguments h args = Inr (Some (path_join h (process_cwd h) R))"
    using assms(3)
  proof
    assume "2 < length (positional args) \<and> positional args ! 2 = JStr R"
    then show ?thesis
      using assms(1,2) by (simp add: setArguments_positional absolute_path_string)
  next
    assume fallback: "(length (positional args) \<le> 2 \<or> \<not> truthy (positional args ! 2))
      \<and> root_dir args = Some (JStr R)"
    then have "setArguments h args = absolute_path h (Some (JStr R))"
      using assms(2) by (simp add: setArguments_fallback js_not_def)
    then show ?thesis
      using assms(1) by (simp add: absolute_path_string)
  qed
  from captured assms(4)
  have "startup h args selected (initial_state fs) =
      Inr ((initial_state fs)\<lparr>root :=
        Resolved (Some (JStr (FileUri_create h (path_join h (process_cwd h) R))))\<rparr>)"
    by (rule startup_from_cli)
  with captured show ?thesis
    by (simp add: root_after_def getRoot_def)
qed

theorem C6_relative_string_joined_with_cwd_witness:
  "setArguments posix_host (cli_root_dir ''proj/app'') = Inr (Some ''/home/user/proj/app'')
   \<and> root_after (startup posix_host (cli_root_dir ''proj/app'') None (initial_state home_only)) =
     Resolved (Some (JStr ''file:///home/user/proj/app''))"
  using C6_relative_string_joined_with_cwd [of posix_host "''proj/app''"
      "cli_root_dir ''proj/app''" None home_only]
  by (simp add: cli_root_dir_def posix_host_def posix_isAbsolute_def posix_join_def
      file_uri_def)

text \<open>
  C6, as the specification words it, fails. The relative path \<^verbatim>\<open>123\<close> (a directory of
  that name under the working directory) given as the positional argument reaches
  \<^verbatim>\<open>setArguments\<close> as the number 123: it is truthy, \<^verbatim>\<open>path.isAbsolute(123)\<close> throws a
  TypeError, nothing is captured (not \<^verbatim>\<open>path.join(process.cwd(), "123")\<close>), and
  \<^verbatim>\<open>this.root\<close> is never resolved.
\<close>

theorem C6_numeric_relative_path_throws:
  "\<not> path_isAbsolute posix_host ''123''
   \<and> setArguments posix_host (cli_positional (JNum 123)) = Inl TypeError
   \<and> setArguments posix_host (cli_positional (JNum 123)) \<noteq>
     Inr (Some (path_join posix_host (process_cwd posix_host) ''123''))
   \<and> root_after (startup posix_host (cli_positional (JNum 123)) None (initial_state home_only)) \<noteq>
     Resolved (Some (JStr (FileUri_create posix_host
       (path_join posix_host (process_cwd posix_host) ''123''))))"
proof -
  have thrown: "setArguments posix_host (cli_positional (JNum 123)) = Inl TypeError"
    by (simp add: setArguments_positional cli_positional_def absolute_path_def)
  have "\<not> path_isAbsolute posix_host ''123''"
    by (simp add: posix_host_def posix_isAbsolute_def)
  with thrown show ?thesis
    by (simp add: startup_def root_after_def)
qed

text \<open>
  C9. The workspace path is element 2 of the positional arguments. When the list has
  fewer than three elements, or its third element is falsy (the empty string, the
  number 0), the value of \<^verbatim>\<open>--root-dir\<close> is taken instead: a non-empty string is made
  absolute and captured, a missing or falsy value leaves the capture unset, and any
  other value makes \<^verbatim>\<open>path.isAbsolute\<close> throw. Otherwise the third element decides,
  whatever the first two elements and \<^verbatim>\<open>--root-dir\<close> are: a string is made absolute and
  captured, and any other truthy value makes \<^verbatim>\<open>path.isAbsolute\<close> throw.
\<close>

theorem C9_workspace_path_is_third_positional:
  "(length (positional args) < 3 \<or> \<not> truthy (positional args ! 2) \<longrightarrow>
      setArguments h args =
        (case root_dir args of
           None \<Rightarrow> Inr None
         | Some v \<Rightarrow>
             if \<not> truthy v then Inr None
             else (case v of
                     JStr d \<Rightarrow>
                       Inr (Some (if path_isAbsolute h d then d
                                  else path_join h (process_cwd h) d))
                   | _ \<Rightarrow> Inl TypeError)))
   \<and> (3 \<le> length (positional args) \<and> truthy (positional args ! 2) \<longrightarrow>
        setArguments h args =
          (case positional args ! 2 of
             JStr p \<Rightarrow>
               Inr (Some (if path_isAbsolute h p then p else path_join h (process_cwd h) p))
           | _ \<Rightarrow> Inl TypeError))"
proof (intro conjI impI)
  assume "length (positional args) < 3 \<or> \<not> truthy (positional args ! 2)"
  then have "length (positional args) \<le> 2 \<or> \<not> truthy (positional args ! 2)"
    by auto
  then have "setArguments h args =
      (if js_not (root_dir args) then Inr None else absolute_path h (root_dir args))"
    by (rule setArguments_fallback)
  then show "setArguments h args =
        (case root_dir args of
           None \<Rightarrow> Inr None
         | Some v \<Rightarrow>
             if \<not> truthy v then Inr None
             else (case v of
                     JStr d \<Rightarrow>
                       Inr (Some (if path_isAbsolute h d then d
                                  else path_join h (process_cwd h) d))
                   | _ \<Rightarrow> Inl TypeError))"
    by (simp add: js_not_def absolute_path_def split: option.splits json.splits)
next
  assume "3 \<le> length (positional args) \<and> truthy (positional args ! 2)"
  then have "setArguments h args = absolute_path h (Some (positional args ! 2))"
    by (simp add: setArguments_positional)
  then show "setArguments h args =
          (case positional args ! 2 of
             JStr p \<Rightarrow>
               Inr (Some (if path_isAbsolute h p then p else path_join h (process_cwd h) p))
           | _ \<Rightarrow> Inl TypeError)"
    by (simp add: absolute_path_def split: json.splits)
qed

theorem C9_workspace_path_is_third_positional_witness:
  "setArguments posix_host
     \<lparr>positional = [JStr ''/one'', JStr ''/two''], root_dir = Some (JStr ''/opt/ws'')\<rparr> =
     Inr (Some ''/opt/ws'')
   \<and> setArguments posix_host
       \<lparr>positional = [JStr ''/one'', JStr ''/two'', JNum 0], root_dir = Some (JStr ''/opt/ws'')\<rparr> =
     Inr (Some ''/opt/ws'')
   \<and> setArguments posix_host \<lparr>positional = [JStr ''/one'', JStr ''/two''], root_dir = None\<rparr> =
     Inr None
   \<and> setArguments posix_host \<lparr>positional = [JStr ''/one''], root_dir = Some (JBool True)\<rparr> =
     Inl TypeError
   \<and> setArguments posix_host
       \<lparr>positional = [JStr ''/one'', JStr ''/two'', JStr ''/three''],
        root_dir = Some (JStr ''/opt/ws'')\<rparr> =
     Inr (Some ''/three'')
   \<and> setArguments posix_host
       \<lparr>positional = [JStr ''/one'', JStr ''/two'', JNum 123],
        root_dir = Some (JStr ''/opt/ws'')\<rparr> =
     Inl TypeError"
  using
    C9_workspace_path_is_third_positional [of
      "\<lparr>positional = [JStr ''/one'', JStr ''/two''], root_dir = Some (JStr ''/opt/ws'')\<rparr>"
      posix_host]
    C9_workspace_path_is_third_positional [of
      "\<lparr>positional = [JStr ''/one'', JStr ''/two'', JNum 0],
        root_dir = Some (JStr ''/opt/ws'')\<rparr>" posix_host]
    C9_workspace_path_is_third_positional [of
      "\<lparr>positional = [JStr ''/one'', JStr ''/two''], root_dir = None\<rparr>" posix_host]
    C9_workspace_path_is_third_positional [of
      "\<lparr>positional = [JStr ''/one''], root_dir = Some (JBool True)\<rparr>" posix_host]
    C9_workspace_path_is_third_positional [of
      "\<lparr>positional = [JStr ''/one'', JStr ''/two'', JStr ''/three''],
        root_dir = Some (JStr ''/opt/ws'')\<rparr>" posix_host]
    C9_workspace_path_is_third_positional [of
      "\<lparr>positional = [JStr ''/one'', JStr ''/two'', JNum 123],
        root_dir = Some (JStr ''/opt/ws'')\<rparr>" posix_host]
  by (simp add: posix_host_def posix_isAbsolute_def)

subsection \<open>Reading the storage file\<close>

lemma startup_without_cli:
  assumes "length (positional args) \<le> 2 \<or> \<not> truthy (positional args ! 2)"
    and "js_not (root_dir args)"
  shows "startup h args selected s = init h None selected s"
  using assms by (simp add: startup_def setArguments_fallback)

lemma init_without_cli:
  "init h None selected s =
     (case readFromUserHome h selected s of
        Inl e \<Rightarrow> Inl e
      | Inr (data, s1) \<Rightarrow>
          (case first_recent_root None data of
             Inl e \<Rightarrow> Inl e
           | Inr r \<Rightarrow> Inr (s1\<lparr>root := resolve (root s1) r\<rparr>)))"
  by (simp add: init_def getRootURIFromCli_def js_not_def)

lemma read_missing:
  assumes "fsys s (getUserStoragePath h) = None"
  shows "readFromUserHome h selected s = Inr (None, s)"
  using assms by (simp add: readFromUserHome_def fs_pathExists_def)

lemma read_blank:
  assumes "fsys s (getUserStoragePath h) = Some (File raw)" and "String_trim h raw = []"
  shows "readFromUserHome h selected s = Inr (None, s)"
  using assms by (simp add: readFromUserHome_def fs_pathExists_def fs_readFile_def)

lemma read_malformed:
  assumes "fsys s (getUserStoragePath h) = Some (File raw)" and "String_trim h raw \<noteq> []"
    and "JSON_parse h (String_trim h raw) = Inl e"
  shows "readFromUserHome h selected s =
           Inr (None, parse_error_prompt (getUserStoragePath h) selected s)"
  using assms by (simp add: readFromUserHome_def fs_pathExists_def fs_readFile_def)

lemma read_parsed:
  assumes "fsys s (getUserStoragePath h) = Some (File raw)" and "String_trim h raw \<noteq> []"
    and "JSON_parse h (String_trim h raw) = Inr config"
  shows "readFromUserHome h selected s =
           (case WorkspaceData_is (Some config) of
              Inl e \<Rightarrow> Inl e
            | Inr b \<Rightarrow> if b then Inr (Some config, s) else Inr (None, s))"
  using assms by (simp add: readFromUserHome_def fs_pathExists_def fs_readFile_def)

lemma init_no_data:
  assumes "readFromUserHome h selected s = Inr (None, s1)" and "root s1 = Pending"
  shows "init h None selected s = Inr (s1\<lparr>root := Resolved None\<rparr>)"
  using assms by (simp add: init_without_cli first_recent_root_def js_not_def)

lemma read_recent_roots:
  assumes "fsys s (getUserStoragePath h) = Some (File raw)" and "String_trim h raw \<noteq> []"
    and "JSON_parse h (String_trim h raw) = Inr (JObj kvs)"
    and "map_of kvs ''recentRoots'' = Some r"
  shows "readFromUserHome h selected s = Inr (Some (JObj kvs), s)"
  using assms by (simp add: read_parsed WorkspaceData_is_def)

lemma init_recent_array:
  assumes "fsys s (getUserStoragePath h) = Some (File raw)" and "String_trim h raw \<noteq> []"
    and "JSON_parse h (String_trim h raw) = Inr (JObj kvs)"
    and "map_of kvs ''recentRoots'' = Some (JArr xs)"
  shows "init h None selected s =
           Inr (s\<lparr>root := resolve (root s) (case xs of [] \<Rightarrow> None | x # _ \<Rightarrow> Some x)\<rparr>)"
  using assms
  by (simp add: init_without_cli read_recent_roots first_recent_root_def js_not_def)

lemma read_null:
  assumes "fsys s (getUserStoragePath h) = Some (File raw)" and "String_trim h raw \<noteq> []"
    and "JSON_parse h (String_trim h raw) = Inr JNull"
  shows "readFromUserHome h selected s = Inl TypeError"
  using assms by (simp add: read_parsed WorkspaceData_is_def)

text \<open>
  Every parsed value but \<^verbatim>\<open>null\<close> that has no \<^verbatim>\<open>recentRoots\<close> is read as no data.
\<close>

lemma read_without_recentRoots:
  assumes "fsys s (getUserStoragePath h) = Some (File raw)" and "String_trim h raw \<noteq> []"
    and "JSON_parse h (String_trim h raw) = Inr config"
    and "get_recentRoots (Some config) = Inr None"
  shows "readFromUserHome h selected s = Inr (None, s)"
  using assms by (simp add: read_parsed WorkspaceData_is_def)

lemma get_recentRoots_faults_only_on_null:
  "get_recentRoots (Some config) = Inl e \<longleftrightarrow> config = JNull \<and> e = TypeError"
  by (cases config) auto

lemma sample_trim_two_roots: "ascii_trim (stringify two_roots) = stringify two_roots"
  by (simp add: ascii_trim_def two_roots_def quoted_def escape_def is_space_def)

lemma sample_parse_two_roots: "table_parse (stringify two_roots) = Inr two_roots"
  by (simp add: table_parse_def sample_values_def two_roots_def empty_roots_def quoted_def
      escape_def)

lemma sample_storage_path:
  "getUserStoragePath posix_host = [''home'', ''user'', ''.theia'', ''recentworkspace.json'']"
  by (simp add: getUserStoragePath_def posix_host_def)

lemma sample_storage_file:
  "with_storage_file c (getUserStoragePath posix_host) = Some (File c)"
  by (simp add: sample_storage_path with_storage_file_def)

lemma sample_no_cli:
  "length (positional cli_none) \<le> 2 \<or> \<not> truthy (positional cli_none ! 2)"
  "js_not (root_dir cli_none)"
  by (simp_all add: cli_none_def js_not_def)

lemma sample_trim_brace: "ascii_trim ''{'' = ''{''"
  by (simp add: ascii_trim_def is_space_def)

lemma sample_parse_brace: "table_parse ''{'' = Inl SyntaxError"
  by (simp add: table_parse_def sample_values_def two_roots_def empty_roots_def quoted_def
      escape_def)

lemma sample_trim_null: "ascii_trim ''null'' = ''null''"
  by (simp add: ascii_trim_def is_space_def)

lemma sample_parse_null: "table_parse ''null'' = Inr JNull"
  by (simp add: table_parse_def sample_values_def)

lemma sample_host_fields:
  "String_trim posix_host = ascii_trim" "JSON_parse posix_host = table_parse"
  "FileUri_create posix_host = file_uri"
  by (simp_all add: posix_host_def)

text \<open>
  C2, as the code has it. With no workspace given on the command line and a storage
  file that parses to an object whose \<^verbatim>\<open>recentRoots\<close> is an array with a first element
  \<open>x\<close>, \<^verbatim>\<open>getRoot()\<close> resolves to \<open>x\<close> itself, as it stands in the file: the value read
  from the file is not passed through \<^verbatim>\<open>FileUri.create\<close>. The elements after the first
  have no part in the result, and the run changes nothing else.
\<close>

theorem C2_first_recent_root_as_stored:
  assumes "length (positional args) \<le> 2 \<or> \<not> truthy (positional args ! 2)"
    and "js_not (root_dir args)"
    and "fs (getUserStoragePath h) = Some (File raw)" and "String_trim h raw \<noteq> []"
    and "JSON_parse h (String_trim h raw) = Inr (JObj kvs)"
    and "map_of kvs ''recentRoots'' = Some (JArr (x # rest))"
  shows "root_after (startup h args selected (initial_state fs)) = Resolved (Some x)
         \<and> startup h args selected (initial_state fs) =
           Inr \<lparr>root = Resolved (Some x), fsys = fs, events = []\<rparr>"
proof -
  have "fsys (initial_state fs) (getUserStoragePath h) = Some (File raw)"
    using assms(3) by (simp add: initial_state_def)
  from init_recent_array [OF this assms(4,5,6)]
  have "init h None selected (initial_state fs) =
      Inr \<lparr>root = Resolved (Some x), fsys = fs, events = []\<rparr>"
    by (simp add: initial_state_def)
  then show ?thesis
    using assms(1,2) by (simp add: startup_without_cli root_after_def getRoot_def)
qed

theorem C2_first_recent_root_as_stored_witness:
  "root_after (startup posix_host cli_none None
      (initial_state (with_storage_file (stringify two_roots)))) =
     Resolved (Some (JStr ''/ws/a''))
   \<and> startup posix_host cli_none None
      (initial_state (with_storage_file (stringify two_roots))) =
     Inr \<lparr>root = Resolved (Some (JStr ''/ws/a'')),
          fsys = with_storage_file (stringify two_roots), events = []\<rparr>"
proof -
  have nonblank: "String_trim posix_host (stringify two_roots) \<noteq> []"
    by (simp add: sample_host_fields sample_trim_two_roots) (simp add: two_roots_def)
  have parsed: "JSON_parse posix_host (String_trim posix_host (stringify two_roots)) =
      Inr (JObj [(''recentRoots'', JArr [JStr ''/ws/a'', JStr ''/ws/b''])])"
    by (simp add: sample_host_fields sample_trim_two_roots sample_parse_two_roots)
      (simp add: two_roots_def)
  have first: "map_of [(''recentRoots'', JArr [JStr ''/ws/a'', JStr ''/ws/b''])] ''recentRoots'' =
      Some (JArr (JStr ''/ws/a'' # [JStr ''/ws/b'']))"
    by simp
  show ?thesis
    using C2_first_recent_root_as_stored [where h = posix_host
        and fs = "with_storage_file (stringify two_roots)" and raw = "stringify two_roots"
        and selected = None, OF sample_no_cli sample_storage_file nonblank parsed first] .
qed

text \<open>
  C2, as the specification words it, fails: the storage file holds
  \<^verbatim>\<open>{"recentRoots":["/ws/a","/ws/b"]}\<close>, no workspace is given on the command line, and
  \<^verbatim>\<open>getRoot()\<close> does not resolve to the file URI of \<^verbatim>\<open>/ws/a\<close> (it resolves to \<^verbatim>\<open>/ws/a\<close>).
\<close>

theorem C2_first_recent_root_not_canonical:
  "root_after (startup posix_host cli_none None
      (initial_state (with_storage_file (stringify two_roots)))) \<noteq>
     Resolved (Some (JStr (FileUri_create posix_host ''/ws/a'')))"
proof -
  have "fsys (initial_state (with_storage_file (stringify two_roots)))
      (getUserStoragePath posix_host) = Some (File (stringify two_roots))"
    by (simp add: initial_state_def sample_storage_file)
  moreover have "String_trim posix_host (stringify two_roots) \<noteq> []"
    by (simp add: sample_host_fields sample_trim_two_roots) (simp add: two_roots_def)
  moreover have "JSON_parse posix_host (String_trim posix_host (stringify two_roots)) =
      Inr (JObj [(''recentRoots'', JArr [JStr ''/ws/a'', JStr ''/ws/b''])])"
    by (simp add: sample_host_fields sample_trim_two_roots sample_parse_two_roots)
      (simp add: two_roots_def)
  moreover have "map_of [(''recentRoots'', JArr [JStr ''/ws/a'', JStr ''/ws/b''])] ''recentRoots'' =
      Some (JArr [JStr ''/ws/a'', JStr ''/ws/b''])"
    by simp
  ultimately have "init posix_host None None
      (initial_state (with_storage_file (stringify two_roots))) =
      Inr ((initial_state (with_storage_file (stringify two_roots)))
        \<lparr>root := resolve (root (initial_state (with_storage_file (stringify two_roots))))
           (Some (JStr ''/ws/a''))\<rparr>)"
    using init_recent_array [of "initial_state (with_storage_file (stringify two_roots))"
        posix_host "stringify two_roots"
        "[(''recentRoots'', JArr [JStr ''/ws/a'', JStr ''/ws/b''])]"
        "[JStr ''/ws/a'', JStr ''/ws/b'']" None]
    by simp
  then have "root_after (startup posix_host cli_none None
      (initial_state (with_storage_file (stringify two_roots)))) =
      Resolved (Some (JStr ''/ws/a''))"
    by (simp add: startup_without_cli [OF sample_no_cli] root_after_def getRoot_def
        initial_state_def)
  then show ?thesis
    by (simp add: sample_host_fields file_uri_def)
qed

text \<open>
  C3, at the input where the code departs from it. The storage file holds \<^verbatim>\<open>null\<close>:
  \<^verbatim>\<open>JSON.parse\<close> returns \<^verbatim>\<open>null\<close>, \<^verbatim>\<open>WorkspaceData.is(null)\<close> reads
  \<^verbatim>\<open>null.recentRoots\<close> outside the \<^verbatim>\<open>try\<close> block, and the TypeError leaves
  \<^verbatim>\<open>readFromUserHome\<close> and \<^verbatim>\<open>init\<close>: \<^verbatim>\<open>this.root\<close> is never resolved.
\<close>

theorem C3_null_content_throws:
  "readFromUserHome posix_host None (initial_state (with_storage_file ''null'')) = Inl TypeError
   \<and> startup posix_host cli_none None (initial_state (with_storage_file ''null'')) = Inl TypeError
   \<and> root_after (startup posix_host cli_none None (initial_state (with_storage_file ''null''))) =
     Pending"
proof -
  have "fsys (initial_state (with_storage_file ''null'')) (getUserStoragePath posix_host) =
      Some (File ''null'')"
    by (simp add: initial_state_def sample_storage_file)
  moreover have "String_trim posix_host ''null'' \<noteq> []"
    by (simp add: sample_host_fields sample_trim_null)
  moreover have "JSON_parse posix_host (String_trim posix_host ''null'') = Inr JNull"
    by (simp add: sample_host_fields sample_trim_null sample_parse_null)
  ultimately have "readFromUserHome posix_host None
      (initial_state (with_storage_file ''null'')) = Inl TypeError"
    by (rule read_null)
  then show ?thesis
    by (simp add: startup_without_cli [OF sample_no_cli] init_without_cli root_after_def)
qed

lemma parse_error_prompt_fsys:
  "fsys (parse_error_prompt f selected s) =
     (if selected = Some ''Delete'' then fs_remove f (fsys s) else fsys s)"
  by (simp add: parse_error_prompt_def Let_def)

lemma parse_error_prompt_root: "root (parse_error_prompt f selected s) = root s"
  by (simp add: parse_error_prompt_def Let_def)

lemma fs_remove_self: "fs_remove f fs f = None"
  by (simp add: fs_remove_def)

text \<open>
  C5. The storage file exists, its trimmed content is not empty and \<^verbatim>\<open>JSON.parse\<close>
  throws on it. Then \<^verbatim>\<open>readFromUserHome\<close> returns \<^verbatim>\<open>undefined\<close> without throwing,
  whatever the user answers to the prompt; with no workspace on the command line
  \<^verbatim>\<open>getRoot()\<close> resolves to \<^verbatim>\<open>undefined\<close>; and the file system is what it was, unless
  the answer is \<^verbatim>\<open>Delete\<close>, in which case the file is removed and nothing else changes.
\<close>

theorem C5_malformed_file_is_ignored:
  assumes "length (positional args) \<le> 2 \<or> \<not> truthy (positional args ! 2)"
    and "js_not (root_dir args)"
    and "fs (getUserStoragePath h) = Some (File raw)" and "String_trim h raw \<noteq> []"
    and "JSON_parse h (String_trim h raw) = Inl e"
  shows "readFromUserHome h selected (initial_state fs) =
           Inr (None, parse_error_prompt (getUserStoragePath h) selected (initial_state fs))
         \<and> startup h args selected (initial_state fs) =
           Inr ((parse_error_prompt (getUserStoragePath h) selected (initial_state fs))
                  \<lparr>root := Resolved None\<rparr>)
         \<and> root_after (startup h args selected (initial_state fs)) = Resolved None
         \<and> fsys (parse_error_prompt (getUserStoragePath h) selected (initial_state fs)) =
           (if selected = Some ''Delete'' then fs_remove (getUserStoragePath h) fs else fs)"
proof -
  have stored: "fsys (initial_state fs) (getUserStoragePath h) = Some (File raw)"
    using assms(3) by (simp add: initial_state_def)
  have read: "readFromUserHome h selected (initial_state fs) =
      Inr (None, parse_error_prompt (getUserStoragePath h) selected (initial_state fs))"
    using stored assms(4,5) by (rule read_malformed)
  have "root (parse_error_prompt (getUserStoragePath h) selected (initial_state fs)) = Pending"
    by (simp add: parse_error_prompt_root initial_state_def)
  with read have "init h None selected (initial_state fs) =
      Inr ((parse_error_prompt (getUserStoragePath h) selected (initial_state fs))
             \<lparr>root := Resolved None\<rparr>)"
    by (rule init_no_data)
  then have run: "startup h args selected (initial_state fs) =
      Inr ((parse_error_prompt (getUserStoragePath h) selected (initial_state fs))
             \<lparr>root := Resolved None\<rparr>)"
    using assms(1,2) by (simp add: startup_without_cli)
  have "fsys (parse_error_prompt (getUserStoragePath h) selected (initial_state fs)) =
      (if selected = Some ''Delete'' then fs_remove (getUserStoragePath h) fs else fs)"
    by (simp add: parse_error_prompt_fsys initial_state_def)
  with read run show ?thesis
    by (simp add: root_after_def getRoot_def)
qed

theorem C5_malformed_file_is_ignored_witness:
  "readFromUserHome posix_host (Some ''Fix'') (initial_state (with_storage_file ''{'')) =
     Inr (None, \<lparr>root = Pending, fsys = with_storage_file ''{'',
       events = [Logger_warn [''home'', ''user'', ''.theia'', ''recentworkspace.json''],
                 Message_warn [''home'', ''user'', ''.theia'', ''recentworkspace.json'']
                   [''Fix'', ''Delete''],
                 Message_info ''Once fixed, you should reload the application.'']\<rparr>)
   \<and> root_after (startup posix_host cli_none (Some ''Fix'')
       (initial_state (with_storage_file ''{''))) = Resolved None"
proof -
  have nonblank: "String_trim posix_host ''{'' \<noteq> []"
    by (simp add: sample_host_fields sample_trim_brace)
  have malformed: "JSON_parse posix_host (String_trim posix_host ''{'') = Inl SyntaxError"
    by (simp add: sample_host_fields sample_trim_brace sample_parse_brace)
  show ?thesis
    using C5_malformed_file_is_ignored [where h = posix_host and fs = "with_storage_file ''{''"
        and raw = "''{''" and selected = "Some ''Fix''",
        OF sample_no_cli sample_storage_file nonblank malformed]
    by (simp add: parse_error_prompt_def initial_state_def sample_storage_path
        root_after_def getRoot_def)
qed

text \<open>
  C7. With no workspace on the command line, a storage file that does not exist, or
  whose content is empty once trimmed, is read as no data: \<^verbatim>\<open>readFromUserHome\<close> returns
  \<^verbatim>\<open>undefined\<close>, nothing is thrown, logged or changed, and \<^verbatim>\<open>getRoot()\<close> resolves to
  \<^verbatim>\<open>undefined\<close>.
\<close>

theorem C7_missing_or_blank_file_is_no_data:
  assumes "length (positional args) \<le> 2 \<or> \<not> truthy (positional args ! 2)"
    and "js_not (root_dir args)"
    and "fs (getUserStoragePath h) = None
         \<or> (\<exists>raw. fs (getUserStoragePath h) = Some (File raw) \<and> String_trim h raw = [])"
  shows "readFromUserHome h selected (initial_state fs) = Inr (None, initial_state fs)
         \<and> startup h args selected (initial_state fs) =
           Inr \<lparr>root = Resolved None, fsys = fs, events = []\<rparr>
         \<and> root_after (startup h args selected (initial_state fs)) = Resolved None"
proof -
  have read: "readFromUserHome h selected (initial_state fs) = Inr (None, initial_state fs)"
    using assms(3)
  proof
    assume "fs (getUserStoragePath h) = None"
    then show ?thesis
      by (simp add: read_missing initial_state_def)
  next
    assume "\<exists>raw. fs (getUserStoragePath h) = Some (File raw) \<and> String_trim h raw = []"
    then obtain raw where "fsys (initial_state fs) (getUserStoragePath h) = Some (File raw)"
      and "String_trim h raw = []"
      by (auto simp: initial_state_def)
    then show ?thesis
      by (rule read_blank)
  qed
  have "root (initial_state fs) = Pending"
    by (simp add: initial_state_def)
  with read have "init h None selected (initial_state fs) =
      Inr ((initial_state fs)\<lparr>root := Resolved None\<rparr>)"
    by (rule init_no_data)
  then have "startup h args selected (initial_state fs) =
      Inr \<lparr>root = Resolved None, fsys = fs, events = []\<rparr>"
    using assms(1,2) by (simp add: startup_without_cli initial_state_def)
  with read show ?thesis
    by (simp add: root_after_def getRoot_def)
qed

theorem C7_missing_or_blank_file_is_no_data_witness:
  "(readFromUserHome posix_host None (initial_state home_only) =
      Inr (None, initial_state home_only)
    \<and> startup posix_host cli_none None (initial_state home_only) =
      Inr \<lparr>root = Resolved None, fsys = home_only, events = []\<rparr>
    \<and> root_after (startup posix_host cli_none None (initial_state home_only)) = Resolved None)
   \<and> (readFromUserHome posix_host None (initial_state (with_storage_file '' '')) =
      Inr (None, initial_state (with_storage_file '' ''))
    \<and> startup posix_host cli_none None (initial_state (with_storage_file '' '')) =
      Inr \<lparr>root = Resolved None, fsys = with_storage_file '' '', events = []\<rparr>
    \<and> root_after (startup posix_host cli_none None (initial_state (with_storage_file '' ''))) =
      Resolved None)"
proof -
  have missing: "home_only (getUserStoragePath posix_host) = None
      \<or> (\<exists>raw. home_only (getUserStoragePath posix_host) = Some (File raw)
            \<and> String_trim posix_host raw = [])"
    by (simp add: sample_storage_path home_only_def)
  have "String_trim posix_host '' '' = []"
    by (simp add: sample_host_fields ascii_trim_def is_space_def)
  then have blank: "with_storage_file '' '' (getUserStoragePath posix_host) = None
      \<or> (\<exists>raw. with_storage_file '' '' (getUserStoragePath posix_host) = Some (File raw)
            \<and> String_trim posix_host raw = [])"
    by (simp add: sample_storage_file)
  show ?thesis
    using C7_missing_or_blank_file_is_no_data [where h = posix_host and fs = home_only
        and selected = None, OF sample_no_cli missing]
      C7_missing_or_blank_file_is_no_data [where h = posix_host
        and fs = "with_storage_file '' ''" and selected = None, OF sample_no_cli blank]
    by (rule conjI)
qed

text \<open>
  C10. With no workspace on the command line and a storage file that parses to an
  object whose \<^verbatim>\<open>recentRoots\<close> is the empty array, \<^verbatim>\<open>init\<close> ends without throwing and
  \<^verbatim>\<open>getRoot()\<close> resolves to \<^verbatim>\<open>undefined\<close>: the empty array passes
  \<^verbatim>\<open>WorkspaceData.is\<close> and the guard of \<^verbatim>\<open>init\<close>, and its element 0 is \<^verbatim>\<open>undefined\<close>.
\<close>

theorem C10_empty_recent_roots:
  assumes "length (positional args) \<le> 2 \<or> \<not> truthy (positional args ! 2)"
    and "js_not (root_dir args)"
    and "fs (getUserStoragePath h) = Some (File raw)" and "String_trim h raw \<noteq> []"
    and "JSON_parse h (String_trim h raw) = Inr (JObj kvs)"
    and "map_of kvs ''recentRoots'' = Some (JArr [])"
  shows "WorkspaceData_is (Some (JObj kvs)) = Inr True
         \<and> index0 (Some (JArr [])) = Inr None
         \<and> startup h args selected (initial_state fs) =
           Inr \<lparr>root = Resolved None, fsys = fs, events = []\<rparr>
         \<and> root_after (startup h args selected (initial_state fs)) = Resolved None"
proof -
  have "fsys (initial_state fs) (getUserStoragePath h) = Some (File raw)"
    using assms(3) by (simp add: initial_state_def)
  from init_recent_array [OF this assms(4,5,6)]
  have "init h None selected (initial_state fs) =
      Inr \<lparr>root = Resolved None, fsys = fs, events = []\<rparr>"
    by (simp add: initial_state_def)
  then have "startup h args selected (initial_state fs) =
      Inr \<lparr>root = Resolved None, fsys = fs, events = []\<rparr>"
    using assms(1,2) by (simp add: startup_without_cli)
  then show ?thesis
    using assms(6) by (simp add: root_after_def getRoot_def WorkspaceData_is_def)
qed

theorem C10_empty_recent_roots_witness:
  "startup posix_host cli_none None (initial_state (with_storage_file (stringify empty_roots))) =
     Inr \<lparr>root = Resolved None, fsys = with_storage_file (stringify empty_roots), events = []\<rparr>
   \<and> root_after (startup posix_host cli_none None
       (initial_state (with_storage_file (stringify empty_roots)))) = Resolved None"
proof -
  have trimmed: "ascii_trim (stringify empty_roots) = stringify empty_roots"
    by (simp add: ascii_trim_def empty_roots_def quoted_def escape_def is_space_def)
  have nonblank: "String_trim posix_host (stringify empty_roots) \<noteq> []"
    by (simp add: sample_host_fields trimmed) (simp add: empty_roots_def)
  have parsed: "JSON_parse posix_host (String_trim posix_host (stringify empty_roots)) =
      Inr (JObj [(''recentRoots'', JArr [])])"
    by (simp add: sample_host_fields trimmed)
      (simp add: table_parse_def sample_values_def empty_roots_def quoted_def escape_def)
  have empty: "map_of [(''recentRoots'', JArr [])] ''recentRoots'' = Some (JArr [])"
    by simp
  have "startup posix_host cli_none None
      (initial_state (with_storage_file (stringify empty_roots))) =
      Inr \<lparr>root = Resolved None, fsys = with_storage_file (stringify empty_roots),
           events = []\<rparr>
    \<and> root_after (startup posix_host cli_none None
        (initial_state (with_storage_file (stringify empty_roots)))) = Resolved None"
    using C10_empty_recent_roots [where h = posix_host
        and fs = "with_storage_file (stringify empty_roots)"
        and raw = "stringify empty_roots" and selected = None,
        OF sample_no_cli sample_storage_file nonblank parsed empty]
    by blast
  then show ?thesis .
qed

subsection \<open>Writing the storage file\<close>

lemma storage_path_nonempty: "getUserStoragePath h \<noteq> []"
  by (simp add: getUserStoragePath_def)

lemma not_prefix_butlast: "p \<noteq> [] \<Longrightarrow> \<not> prefix p (butlast p)"
  using prefix_length_le [of p "butlast p"] by (cases p) auto

lemma fs_mkdirs_clear:
  assumes "\<not> list_ex (\<lambda>q. is_File (fs q)) (prefixes p)"
  shows "fs_mkdirs p fs = Inr (\<lambda>q. if prefix q p \<and> fs q = None then Some Dir else fs q)"
proof -
  from assms have clear: "\<And>q. prefix q p \<Longrightarrow> \<not> is_File (fs q)"
    by (simp add: list_ex_iff)
  then have "\<not> is_File (fs p)"
    by simp
  moreover have "\<not> list_ex (\<lambda>q. is_File (fs q)) (butlast (prefixes p))"
    using clear by (auto simp: list_ex_iff dest: in_set_butlastD)
  ultimately show ?thesis
    by (simp add: fs_mkdirs_def)
qed

lemma not_File_cases: "\<not> is_File n \<longleftrightarrow> n = None \<or> n = Some Dir"
  by (auto simp: is_File_def split: option.splits node.splits)


lemma write_settled: "settled call \<Longrightarrow> writeToUserHome h call fs = (call, fs)"
  by (cases call)
    (simp add: writeToUserHome_def settled_def Let_def split: write_stage.splits)


lemma resume_settled:
  assumes "i < length (writes sv)" and "settled (writes sv ! i)"
  shows "resume h i sv = sv"
  using assms by (simp add: resume_def write_settled)




lemma resume_events: "events (current (resume h i sv)) = events (current sv)"
  by (simp add: resume_def split: prod.splits)






lemma run_events: "events (current (run h schedule sv)) = events (current sv)"
  by (induction schedule arbitrary: sv) (simp_all add: resume_events)


lemma run_append: "run h (xs @ ys) sv = run h ys (run h xs sv)"
  by (induction xs arbitrary: sv) simp_all





lemma setRoot_fsys: "fsys (current (setRoot U sv)) = fsys (current sv)"
  by (simp add: setRoot_def)

lemma sample_storage_parent:
  "butlast (getUserStoragePath posix_host) = [''home'', ''user'', ''.theia'']"
  by (simp add: sample_storage_path)

lemma sample_written: "writeJson_text posix_host v = stringify v @ [CHR 0x0A]"
  by (simp add: posix_host_def)

text \<open>One resumption, by the operation the call waits for.\<close>

lemma resume_PathExists:
  assumes "i < length (writes sv)" and "writes sv ! i = (PathExists, d)"
  shows "writes (resume h i sv) =
           (writes sv)[i := (if fsys (current sv) (getUserStoragePath h) = None then (Mkdirs, d)
                             else (WriteJson, d))]"
    and "current (resume h i sv) = current sv"
  using assms by (simp_all add: resume_def writeToUserHome_def fs_pathExists_def)

lemma resume_Mkdirs:
  assumes "i < length (writes sv)" and "writes sv ! i = (Mkdirs, d)"
    and "\<not> list_ex (\<lambda>q. is_File (fsys (current sv) q)) (prefixes (butlast (getUserStoragePath h)))"
  shows "writes (resume h i sv) = (writes sv)[i := (WriteJson, d)]"
    and "current (resume h i sv) =
           (current sv)\<lparr>fsys := (\<lambda>q. if prefix q (butlast (getUserStoragePath h))
                                       \<and> fsys (current sv) q = None
                                     then Some Dir else fsys (current sv) q)\<rparr>"
  using assms by (simp_all add: resume_def writeToUserHome_def fs_mkdirs_clear)

lemma resume_Mkdirs_blocked:
  assumes "i < length (writes sv)" and "writes sv ! i = (Mkdirs, d)"
    and "list_ex (\<lambda>q. is_File (fsys (current sv) q))
           (butlast (prefixes (butlast (getUserStoragePath h))))"
  shows "writes (resume h i sv) = (writes sv)[i := (Rejected ENOTDIR, d)]"
    and "current (resume h i sv) = current sv"
  using assms by (simp_all add: resume_def writeToUserHome_def fs_mkdirs_def)

lemma resume_WriteJson:
  assumes "i < length (writes sv)" and "writes sv ! i = (WriteJson, d)"
    and "fsys (current sv) (getUserStoragePath h) \<noteq> Some Dir"
    and "fsys (current sv) (butlast (getUserStoragePath h)) = Some Dir"
  shows "writes (resume h i sv) = (writes sv)[i := (Fulfilled, d)]"
    and "current (resume h i sv) =
           (current sv)\<lparr>fsys := (fsys (current sv))
             (getUserStoragePath h \<mapsto> File (writeJson_text h d))\<rparr>"
  using assms
  by (simp_all add: resume_def writeToUserHome_def fs_writeJson_def fs_writeFile_def)




lemma sample_idle:
  "writes (idle fs) = []" "fsys (current (idle fs)) = fs" "events (current (idle fs)) = []"
  by (simp_all add: idle_def initial_state_def)





lemma write_into_missing:
  assumes "fsys (current sv) (butlast (getUserStoragePath h)) = None"
    and "fsys (current sv) (getUserStoragePath h) = None"
    and "\<not> list_ex (\<lambda>q. is_File (fsys (current sv) q))
           (prefixes (butlast (getUserStoragePath h)))"
  shows "writes (run h [length (writes sv), length (writes sv)] (setRoot U sv)) =
           writes sv @ [(WriteJson, workspace_data U)]"
    and "current (run h [length (writes sv), length (writes sv)] (setRoot U sv)) =
           (current sv)\<lparr>root := Resolved (Some (JStr U)),
             fsys := (\<lambda>q. if prefix q (butlast (getUserStoragePath h))
                              \<and> fsys (current sv) q = None
                            then Some Dir else fsys (current sv) q)\<rparr>"
    and "writes (run h [length (writes sv), length (writes sv), length (writes sv)]
           (setRoot U sv)) = writes sv @ [(Fulfilled, workspace_data U)]"
    and "current (run h [length (writes sv), length (writes sv), length (writes sv)]
           (setRoot U sv)) =
           (current sv)\<lparr>root := Resolved (Some (JStr U)),
             fsys := (\<lambda>q. if prefix q (butlast (getUserStoragePath h))
                              \<and> fsys (current sv) q = None
                            then Some Dir else fsys (current sv) q)
               (getUserStoragePath h \<mapsto> File (writeJson_text h (workspace_data U)))\<rparr>"
proof -
  let ?f = "getUserStoragePath h"
  let ?d = "workspace_data U"
  let ?n = "length (writes sv)"
  let ?dirs = "\<lambda>q. if prefix q (butlast ?f) \<and> fsys (current sv) q = None
    then Some Dir else fsys (current sv) q"
  let ?s0 = "setRoot U sv"
  let ?s1 = "resume h ?n ?s0"
  let ?s2 = "resume h ?n ?s1"
  let ?s3 = "resume h ?n ?s2"
  have w0: "writes ?s0 = writes sv @ [(PathExists, ?d)]"
    and c0: "current ?s0 = (current sv)\<lparr>root := Resolved (Some (JStr U))\<rparr>"
    by (simp_all add: setRoot_def)
  have "writes ?s1 = (writes ?s0)[?n := (if fsys (current ?s0) ?f = None
      then (Mkdirs, ?d) else (WriteJson, ?d))]" and c1: "current ?s1 = current ?s0"
    by (rule resume_PathExists; simp add: w0)+
  then have w1: "writes ?s1 = writes sv @ [(Mkdirs, ?d)]"
    using assms(2) by (simp add: w0 c0)
  have "writes ?s2 = (writes ?s1)[?n := (WriteJson, ?d)]"
    and "current ?s2 = (current ?s1)\<lparr>fsys := (\<lambda>q. if prefix q (butlast ?f)
        \<and> fsys (current ?s1) q = None then Some Dir else fsys (current ?s1) q)\<rparr>"
    by (rule resume_Mkdirs; simp add: w1 c1 c0 assms(3))+
  then have w2: "writes ?s2 = writes sv @ [(WriteJson, ?d)]"
    and c2: "current ?s2 = (current sv)\<lparr>root := Resolved (Some (JStr U)), fsys := ?dirs\<rparr>"
    by (simp_all add: w1 c1 c0 cong: if_cong)
  have "writes ?s3 = (writes ?s2)[?n := (Fulfilled, ?d)]"
    and "current ?s3 = (current ?s2)\<lparr>fsys := (fsys (current ?s2))
      (?f \<mapsto> File (writeJson_text h ?d))\<rparr>"
    by (rule resume_WriteJson;
        simp add: w2 c2 assms(1,2) not_prefix_butlast storage_path_nonempty)+
  then have w3: "writes ?s3 = writes sv @ [(Fulfilled, ?d)]"
    and c3: "current ?s3 = (current sv)\<lparr>root := Resolved (Some (JStr U)),
      fsys := ?dirs(?f \<mapsto> File (writeJson_text h ?d))\<rparr>"
    by (simp_all add: w2 c2)
  show "writes (run h [?n, ?n] ?s0) = writes sv @ [(WriteJson, ?d)]"
    and "current (run h [?n, ?n] ?s0) =
      (current sv)\<lparr>root := Resolved (Some (JStr U)), fsys := ?dirs\<rparr>"
    and "writes (run h [?n, ?n, ?n] ?s0) = writes sv @ [(Fulfilled, ?d)]"
    and "current (run h [?n, ?n, ?n] ?s0) =
      (current sv)\<lparr>root := Resolved (Some (JStr U)),
        fsys := ?dirs(?f \<mapsto> File (writeJson_text h ?d))\<rparr>"
    using w2 c2 w3 c3 by simp_all
qed

text \<open>
  C8, as the code has it. The directory of the storage file does not exist, nothing
  exists at the storage path, and no regular file stands at a path above it. Then the
  write of \<^verbatim>\<open>setRoot(U)\<close>, resumed three times, is fulfilled. After the second
  resumption the directory and every missing directory above it exist (every directory
  that existed is kept) and the file is not yet written; after the third the file
  holds the text of \<^verbatim>\<open>{recentRoots: [U]}\<close>. On the file system as it was,
  \<^verbatim>\<open>fs.writeJson\<close> alone fails with ENOENT.
\<close>

theorem C8_setRoot_creates_missing_directories:
  assumes "fsys (current sv) (butlast (getUserStoragePath h)) = None"
    and "fsys (current sv) (getUserStoragePath h) = None"
    and "\<not> list_ex (\<lambda>q. is_File (fsys (current sv) q))
           (prefixes (butlast (getUserStoragePath h)))"
    and "n = length (writes sv)"
    and "dirs = (\<lambda>q. if prefix q (butlast (getUserStoragePath h)) \<and> fsys (current sv) q = None
                     then Some Dir else fsys (current sv) q)"
  shows "writes (run h [n, n] (setRoot U sv)) =
           writes sv @ [(WriteJson, JObj [(''recentRoots'', JArr [JStr U])])]
         \<and> fsys (current (run h [n, n] (setRoot U sv))) = dirs
         \<and> list_all (\<lambda>q. dirs q = Some Dir) (prefixes (butlast (getUserStoragePath h)))
         \<and> dirs (getUserStoragePath h) = None
         \<and> writes (run h [n, n, n] (setRoot U sv)) =
             writes sv @ [(Fulfilled, JObj [(''recentRoots'', JArr [JStr U])])]
         \<and> fsys (current (run h [n, n, n] (setRoot U sv))) =
             dirs(getUserStoragePath h \<mapsto>
               File (writeJson_text h (JObj [(''recentRoots'', JArr [JStr U])])))
         \<and> getRoot (current (run h [n, n, n] (setRoot U sv))) = Resolved (Some (JStr U))
         \<and> fs_writeJson h (getUserStoragePath h) (workspace_data U) (fsys (current sv)) =
             Inl ENOENT"
proof -
  let ?f = "getUserStoragePath h"
  note steps = write_into_missing [OF assms(1,2,3), where U = U]
  have no_file: "\<And>q. prefix q (butlast ?f) \<Longrightarrow>
      fsys (current sv) q = None \<or> fsys (current sv) q = Some Dir"
    using assms(3) by (simp add: list_ex_iff not_File_cases)
  have made: "list_all (\<lambda>q. dirs q = Some Dir) (prefixes (butlast ?f))"
    unfolding list_all_iff
  proof
    fix q
    assume "q \<in> set (prefixes (butlast ?f))"
    then have "prefix q (butlast ?f)"
      by simp
    with no_file [OF this] show "dirs q = Some Dir"
      by (auto simp: assms(5))
  qed
  have unwritten: "dirs ?f = None"
    using not_prefix_butlast [OF storage_path_nonempty, of h] assms(2) by (simp add: assms(5))
  have alone: "fs_writeJson h ?f (workspace_data U) (fsys (current sv)) = Inl ENOENT"
    using assms(1,2) by (simp add: fs_writeJson_def fs_writeFile_def)
  show ?thesis
    unfolding assms(4)
    using steps made unwritten alone
    by (simp add: getRoot_def workspace_data_def assms(5) del: run.simps)
qed

theorem C8_setRoot_creates_missing_directories_witness:
  "fsys (current (run posix_host [0, 0, 0] (setRoot ''file:///ws/a'' (idle root_only))))
     [''home''] = Some Dir
   \<and> fsys (current (run posix_host [0, 0, 0] (setRoot ''file:///ws/a'' (idle root_only))))
     [''home'', ''user''] = Some Dir
   \<and> fsys (current (run posix_host [0, 0, 0] (setRoot ''file:///ws/a'' (idle root_only))))
     [''home'', ''user'', ''.theia''] = Some Dir
   \<and> fsys (current (run posix_host [0, 0, 0] (setRoot ''file:///ws/a'' (idle root_only))))
     [''home'', ''user'', ''.theia'', ''recentworkspace.json''] =
     Some (File (stringify (JObj [(''recentRoots'', JArr [JStr ''file:///ws/a''])]) @ [CHR 0x0A]))
   \<and> writes (run posix_host [0, 0, 0] (setRoot ''file:///ws/a'' (idle root_only))) =
     [(Fulfilled, JObj [(''recentRoots'', JArr [JStr ''file:///ws/a''])])]"
proof -
  let ?dirs = "\<lambda>q. if prefix q (butlast (getUserStoragePath posix_host))
      \<and> fsys (current (idle root_only)) q = None
    then Some Dir else fsys (current (idle root_only)) q"
  have parent: "fsys (current (idle root_only)) (butlast (getUserStoragePath posix_host)) = None"
    by (simp add: sample_idle sample_storage_path root_only_def)
  have missing: "fsys (current (idle root_only)) (getUserStoragePath posix_host) = None"
    by (simp add: sample_idle sample_storage_path root_only_def)
  have clear: "\<not> list_ex (\<lambda>q. is_File (fsys (current (idle root_only)) q))
      (prefixes (butlast (getUserStoragePath posix_host)))"
    by (simp add: sample_idle sample_storage_path root_only_def is_File_def)
  have n: "0 = length (writes (idle root_only))"
    by (simp add: sample_idle)
  have "writes (run posix_host [0, 0, 0] (setRoot ''file:///ws/a'' (idle root_only))) =
      writes (idle root_only) @ [(Fulfilled, JObj [(''recentRoots'', JArr [JStr ''file:///ws/a''])])]
    \<and> fsys (current (run posix_host [0, 0, 0] (setRoot ''file:///ws/a'' (idle root_only)))) =
      ?dirs(getUserStoragePath posix_host \<mapsto>
        File (writeJson_text posix_host (JObj [(''recentRoots'', JArr [JStr ''file:///ws/a''])])))"
    using C8_setRoot_creates_missing_directories [OF parent missing clear n refl,
        where U = "''file:///ws/a''"]
    by blast
  then show ?thesis
    by (simp add: sample_idle sample_storage_path sample_written root_only_def del: run.simps)
qed

text \<open>
  C8, as the specification words it, fails. \<^verbatim>\<open>/home\<close> is a regular file, so the
  directory \<^verbatim>\<open>/home/user/.theia\<close> of the storage file does not exist. The write of
  \<^verbatim>\<open>setRoot\<close> finds no storage file, \<^verbatim>\<open>fs.mkdirs\<close> fails with ENOTDIR, the call is
  rejected, and neither the directory nor the file is created.
\<close>

theorem C8_regular_file_in_the_way:
  "fsys (current (idle home_is_file)) (butlast (getUserStoragePath posix_host)) = None
   \<and> writes (run posix_host [0, 0, 0] (setRoot ''file:///ws/a'' (idle home_is_file))) =
     [(Rejected ENOTDIR, workspace_data ''file:///ws/a'')]
   \<and> fsys (current (run posix_host [0, 0, 0] (setRoot ''file:///ws/a'' (idle home_is_file))))
     (butlast (getUserStoragePath posix_host)) = None
   \<and> fsys (current (run posix_host [0, 0, 0] (setRoot ''file:///ws/a'' (idle home_is_file))))
     (getUserStoragePath posix_host) = None"
proof -
  let ?f = "getUserStoragePath posix_host"
  let ?d = "workspace_data ''file:///ws/a''"
  let ?s0 = "setRoot ''file:///ws/a'' (idle home_is_file)"
  let ?s1 = "resume posix_host 0 ?s0"
  let ?s2 = "resume posix_host 0 ?s1"
  let ?s3 = "resume posix_host 0 ?s2"
  have fs0: "fsys (current (idle home_is_file)) = home_is_file"
    by (simp add: sample_idle)
  have absent: "home_is_file ?f = None" "home_is_file (butlast ?f) = None"
    by (simp_all add: sample_storage_path home_is_file_def root_only_def)
  have blocked: "list_ex (\<lambda>q. is_File (home_is_file q)) (butlast (prefixes (butlast ?f)))"
    by (simp add: sample_storage_path home_is_file_def root_only_def is_File_def)
  have w0: "writes ?s0 = [(PathExists, ?d)]"
    and c0: "fsys (current ?s0) = home_is_file"
    by (simp_all add: setRoot_def sample_idle)
  have "writes ?s1 = (writes ?s0)[0 := (if fsys (current ?s0) ?f = None
      then (Mkdirs, ?d) else (WriteJson, ?d))]" and c1: "current ?s1 = current ?s0"
    by (rule resume_PathExists; simp add: w0)+
  then have w1: "writes ?s1 = [(Mkdirs, ?d)]"
    by (simp add: w0 c0 absent)
  have "writes ?s2 = (writes ?s1)[0 := (Rejected ENOTDIR, ?d)]"
    and c2: "current ?s2 = current ?s1"
    by (rule resume_Mkdirs_blocked; simp add: w1 c1 c0 blocked)+
  then have w2: "writes ?s2 = [(Rejected ENOTDIR, ?d)]"
    by (simp add: w1)
  have "?s3 = ?s2"
    by (rule resume_settled) (simp_all add: w2 settled_def)
  with w2 c2 c1 c0 absent fs0 show ?thesis
    by simp
qed

end
